theory Spec2Isabelle
  imports Main "HOL-Library.Multiset"
begin

section \<open>The persisted tables\<close>

text \<open>
  The module \<^verbatim>\<open>flask_api_system.py\<close> keeps two SQLite tables. A row of
  \<^verbatim>\<open>users\<close> and a row of \<^verbatim>\<open>api_operations\<close> are records with
  the columns of the \<^verbatim>\<open>CREATE TABLE\<close> statements of \<^verbatim>\<open>init_database\<close>.
  Identifiers are the AUTOINCREMENT row ids (positive), \<^verbatim>\<open>created_at\<close> is the
  reading of the engine's clock at insert time, in whole seconds (CURRENT_TIMESTAMP has
  a resolution of one second). A table is the list of its rows in row-id order.
\<close>

record user_row =
  u_id :: nat
  u_username :: string
  u_email :: string
  u_password_hash :: string
  u_role :: string
  u_created_at :: int

record op_row =
  o_id :: nat
  o_user_id :: nat
  o_operation_type :: string
  o_data :: string
  o_status :: string
  o_created_at :: int

record database =
  users :: "user_row list"
  api_operations :: "op_row list"

text \<open>
  \<^verbatim>\<open>sqlite3.IntegrityError\<close>: the constraint violations that the schema of
  \<^verbatim>\<open>users\<close> can raise on insert, each with the column it names.
\<close>

datatype integrity_error = NOT_NULL_failed string | UNIQUE_failed string

text \<open>
  AUTOINCREMENT: the new row id is one more than the largest id in the table (no row
  is ever deleted by this program, so the largest id ever used is the largest present).
\<close>

definition next_rowid :: "nat list \<Rightarrow> nat" where
  "next_rowid ids = Suc (fold max ids 0)"

section \<open>The libraries the module calls\<close>

text \<open>
  The payload of a token is a JSON object. The program writes the four keys
  \<^verbatim>\<open>username\<close>, \<^verbatim>\<open>user_id\<close>, \<^verbatim>\<open>role\<close> and \<^verbatim>\<open>exp\<close> and reads
  \<^verbatim>\<open>username\<close> (PyJWT reads \<^verbatim>\<open>exp\<close>); a key that is absent from the
  object is \<open>None\<close>.
\<close>

record claims =
  cl_username :: "string option"
  cl_user_id :: "nat option"
  cl_role :: "string option"
  cl_exp :: "int option"

text \<open>
  The functions of werkzeug, PyJWT and Python that the module imports are not code of
  the repository; they are parameters of the model.
  \<^item> \<open>default_method\<close>: the method tag (with its cost parameters) that
    \<^verbatim>\<open>generate_password_hash\<close> writes in front of a hash;
  \<^item> \<open>hash_internal method salt password\<close>: the hex digest werkzeug derives;
  \<^item> \<open>jwt_encode payload key\<close>: \<^verbatim>\<open>jwt.encode(payload, key, algorithm='HS256')\<close>;
  \<^item> \<open>jwt_verified_payload token key\<close>: the payload of a token that is well formed
    and whose HS256 signature matches the key, \<open>None\<close> when PyJWT raises
    \<^verbatim>\<open>DecodeError\<close>, \<^verbatim>\<open>InvalidSignatureError\<close> or \<^verbatim>\<open>InvalidAlgorithmError\<close>;
  \<^item> \<open>py_int s\<close>: Python's \<^verbatim>\<open>int(s)\<close> on a string, \<open>None\<close> for ValueError.
\<close>

record libs =
  default_method :: string
  hash_internal :: "string \<Rightarrow> string \<Rightarrow> string \<Rightarrow> string"
  jwt_encode :: "claims \<Rightarrow> string \<Rightarrow> string"
  jwt_verified_payload :: "string \<Rightarrow> string \<Rightarrow> claims option"
  py_int :: "string \<Rightarrow> int option"

subsection \<open>werkzeug.security\<close>

text \<open>
  \<^verbatim>\<open>generate_password_hash(password)\<close> returns
  \<^verbatim>\<open>f"{method}${salt}${digest}"\<close>; the random salt is an input of the model.
\<close>

definition generate_password_hash :: "libs \<Rightarrow> string \<Rightarrow> string \<Rightarrow> string" where
  "generate_password_hash L salt password =
     default_method L @ ''$'' @ salt @ ''$'' @ hash_internal L (default_method L) salt password"

text \<open>\<^verbatim>\<open>s.split("$", 1)\<close> when the separator occurs, \<open>None\<close> otherwise.\<close>

definition split_dollar :: "string \<Rightarrow> (string \<times> string) option" where
  "split_dollar s =
     (if CHR ''$'' \<in> set s
      then Some (takeWhile (\<lambda>c. c \<noteq> CHR ''$'') s, tl (dropWhile (\<lambda>c. c \<noteq> CHR ''$'') s))
      else None)"

text \<open>
  \<^verbatim>\<open>check_password_hash(pwhash, password)\<close>: a stored hash with fewer than two
  \<^verbatim>\<open>$\<close> is rejected; otherwise \<^verbatim>\<open>method, salt, hashval = pwhash.split("$", 2)\<close>
  and the digest of the candidate under that method and salt is compared with
  \<^verbatim>\<open>hashval\<close>.
\<close>

definition check_password_hash :: "libs \<Rightarrow> string \<Rightarrow> string \<Rightarrow> bool" where
  "check_password_hash L pwhash password =
     (case split_dollar pwhash of
        None \<Rightarrow> False
      | Some (method, rest) \<Rightarrow>
          (case split_dollar rest of
             None \<Rightarrow> False
           | Some (salt, hashval) \<Rightarrow> hash_internal L method salt password = hashval))"

subsection \<open>jwt.decode\<close>

text \<open>
  The two exception classes \<^verbatim>\<open>token_required\<close> tells apart.
  \<^verbatim>\<open>ExpiredSignatureError\<close> is a subclass of \<^verbatim>\<open>InvalidTokenError\<close>; the
  second constructor stands for every other subclass.
\<close>

datatype jwt_error = ExpiredSignatureError | InvalidTokenError

text \<open>
  \<^verbatim>\<open>jwt.decode(token, key, algorithms=['HS256'])\<close> at clock reading \<open>now\<close>: the
  signature is checked first, then the \<^verbatim>\<open>exp\<close> claim when the payload has one,
  with no leeway (the call passes none): the token has expired when \<open>exp \<le> now\<close>
  (PyJWT 2; PyJWT 1 still accepts a token at the very second of its expiry, and the
  theorems below speak of times strictly before and strictly after it).
\<close>

definition jwt_decode :: "libs \<Rightarrow> int \<Rightarrow> string \<Rightarrow> string \<Rightarrow> jwt_error + claims" where
  "jwt_decode L now token key =
     (case jwt_verified_payload L token key of
        None \<Rightarrow> Inl InvalidTokenError
      | Some payload \<Rightarrow>
          (case cl_exp payload of
             None \<Rightarrow> Inr payload
           | Some exp \<Rightarrow> if exp \<le> now then Inl ExpiredSignatureError else Inr payload))"

section \<open>DatabaseService\<close>

text \<open>
  The INSERT of \<^verbatim>\<open>create_user\<close>. A bound parameter that is Python's \<^verbatim>\<open>None\<close>
  is SQL NULL (\<open>None\<close> here). The engine checks the NOT NULL constraints, then the
  UNIQUE constraints (BINARY collation: equality of strings), and appends the row.
\<close>

definition insert_user ::
  "database \<Rightarrow> int \<Rightarrow> string option \<Rightarrow> string option \<Rightarrow> string \<Rightarrow> string
     \<Rightarrow> integrity_error + (database \<times> nat)" where
  "insert_user d now username email password_hash role =
     (case username of
        None \<Rightarrow> Inl (NOT_NULL_failed ''users.username'')
      | Some u \<Rightarrow>
          (case email of
             None \<Rightarrow> Inl (NOT_NULL_failed ''users.email'')
           | Some e \<Rightarrow>
               if u \<in> set (map u_username (users d)) then Inl (UNIQUE_failed ''users.username'')
               else if e \<in> set (map u_email (users d)) then Inl (UNIQUE_failed ''users.email'')
               else
                 (let i = next_rowid (map u_id (users d));
                      r = \<lparr>u_id = i, u_username = u, u_email = e,
                           u_password_hash = password_hash, u_role = role, u_created_at = now\<rparr>
                  in Inr (d\<lparr>users := users d @ [r]\<rparr>, i))))"

text \<open>
  \<^verbatim>\<open>create_user\<close>: the hash is computed, the row inserted and the row id returned;
  \<^verbatim>\<open>except sqlite3.IntegrityError: return None\<close> turns every integrity error into
  \<open>None\<close>, and the connection is closed without a commit, so the store is unchanged.
\<close>

definition create_user ::
  "libs \<Rightarrow> database \<Rightarrow> int \<Rightarrow> string \<Rightarrow> string option \<Rightarrow> string option \<Rightarrow> string \<Rightarrow> string
     \<Rightarrow> database \<times> nat option" where
  "create_user L d now salt username email password role =
     (let password_hash = generate_password_hash L salt password in
      case insert_user d now username email password_hash role of
        Inr (d', user_id) \<Rightarrow> (d', Some user_id)
      | Inl _ \<Rightarrow> (d, None))"

text \<open>\<^verbatim>\<open>get_user_by_username\<close>: \<^verbatim>\<open>fetchone()\<close> of the rows with that username.\<close>

definition get_user_by_username :: "database \<Rightarrow> string \<Rightarrow> user_row option" where
  "get_user_by_username d username = find (\<lambda>r. u_username r = username) (users d)"





section \<open>The application\<close>

record app =
  secret_key :: string
  db_service :: database

text \<open>What a view returns: the object given to \<^verbatim>\<open>jsonify\<close> and the status code.\<close>

record user_summary =
  s_id :: nat
  s_username :: string
  s_email :: string
  s_role :: string

datatype body =
    Message string
  | UserCreated nat
  | LoginSuccessful string user_summary
  | OperationCreated nat
  | Operations "op_row list" nat

type_synonym response = "body \<times> nat"

text \<open>An exception that leaves a view (Flask answers it with status 500).\<close>

datatype py_exception = KeyError string

subsection \<open>token\_required\<close>

text \<open>
  The decorator, applied to a view \<open>f\<close> and run on the value of the
  \<^verbatim>\<open>Authorization\<close> header (\<open>None\<close> when the request has none). The
  \<^verbatim>\<open>try\<close> block catches the two PyJWT exception classes only, so the
  \<^verbatim>\<open>KeyError\<close> of \<^verbatim>\<open>data['username']\<close> leaves the decorator.
\<close>

definition token_required ::
  "libs \<Rightarrow> app \<Rightarrow> int \<Rightarrow> (user_row \<Rightarrow> response) \<Rightarrow> string option \<Rightarrow> py_exception + response" where
  "token_required L a now f authorization =
     (case authorization of
        None \<Rightarrow> Inr (Message ''Token is missing'', 401)
      | Some token \<Rightarrow>
          if token = [] then Inr (Message ''Token is missing'', 401)
          else
            (let token = (if take 7 token = ''Bearer '' then drop 7 token else token) in
             case jwt_decode L now token (secret_key a) of
               Inl ExpiredSignatureError \<Rightarrow> Inr (Message ''Token has expired'', 401)
             | Inl InvalidTokenError \<Rightarrow> Inr (Message ''Token is invalid'', 401)
             | Inr data \<Rightarrow>
                 (case cl_username data of
                    None \<Rightarrow> Inl (KeyError ''username'')
                  | Some username \<Rightarrow>
                      (case get_user_by_username (db_service a) username of
                         None \<Rightarrow> Inr (Message ''Token is invalid'', 401)
                       | Some current_user \<Rightarrow> Inr (f current_user)))))"

subsection \<open>register\<close>

text \<open>
  The JSON body of a registration: a key is absent (\<open>None\<close>), or present with the
  value null (\<open>Some None\<close>) or a string. The password, when present, is a string.
\<close>

record register_request =
  rq_username :: "string option option"
  rq_email :: "string option option"
  rq_password :: "string option"
  rq_role :: "string option"

definition register ::
  "libs \<Rightarrow> app \<Rightarrow> int \<Rightarrow> string \<Rightarrow> register_request \<Rightarrow> app \<times> response" where
  "register L a now salt data =
     (case (rq_username data, rq_email data, rq_password data) of
        (Some username, Some email, Some password) \<Rightarrow>
          (case create_user L (db_service a) now salt username email password
                  (case rq_role data of None \<Rightarrow> ''user'' | Some r \<Rightarrow> r) of
             (d', Some user_id) \<Rightarrow>
               if user_id \<noteq> 0 then (a\<lparr>db_service := d'\<rparr>, (UserCreated user_id, 201))
               else (a\<lparr>db_service := d'\<rparr>, (Message ''Username or email already exists'', 409))
           | (d', None) \<Rightarrow>
               (a\<lparr>db_service := d'\<rparr>, (Message ''Username or email already exists'', 409)))
      | _ \<Rightarrow> (a, (Message ''Missing required fields'', 400)))"

subsection \<open>login\<close>

text \<open>
  The JSON body of a login; \<^verbatim>\<open>data.get(key)\<close> is \<open>None\<close> for an absent key.
  The token carries \<^verbatim>\<open>exp = utcnow() + 24 hours\<close>, in seconds.
\<close>

record login_request =
  lg_username :: "string option"
  lg_password :: "string option"

definition issued_claims :: "user_row \<Rightarrow> int \<Rightarrow> claims" where
  "issued_claims user now =
     \<lparr>cl_username = Some (u_username user), cl_user_id = Some (u_id user),
      cl_role = Some (u_role user), cl_exp = Some (now + 24 * 3600)\<rparr>"

definition falsy :: "string option \<Rightarrow> bool" where
  "falsy v = (case v of None \<Rightarrow> True | Some s \<Rightarrow> s = [])"

definition login :: "libs \<Rightarrow> app \<Rightarrow> int \<Rightarrow> login_request \<Rightarrow> response" where
  "login L a now data =
     (if falsy (lg_username data) \<or> falsy (lg_password data)
      then (Message ''Username and password required'', 400)
      else
        (case get_user_by_username (db_service a) (the (lg_username data)) of
           None \<Rightarrow> (Message ''Invalid credentials'', 401)
         | Some user \<Rightarrow>
             if check_password_hash L (u_password_hash user) (the (lg_password data))
             then
               (let token = jwt_encode L (issued_claims user now) (secret_key a) in
                (LoginSuccessful token
                   \<lparr>s_id = u_id user, s_username = u_username user,
                    s_email = u_email user, s_role = u_role user\<rparr>, 200))
             else (Message ''Invalid credentials'', 401)))"

subsection \<open>The operation views\<close>




section \<open>A stand-in library\<close>

text \<open>
  A small executable instance of the library parameters, used to run the model on
  concrete requests: digests are the concatenation of method, salt and password, a
  token is the key, a dot and the username claim, read back through a finite code book
  of payloads, and integers are read in decimal with an optional minus sign.
\<close>

definition demo_encode :: "claims \<Rightarrow> string \<Rightarrow> string" where
  "demo_encode payload key =
     key @ ''.'' @ (case cl_username payload of None \<Rightarrow> ''-'' | Some u \<Rightarrow> ''+'' @ u)"

fun digits_value :: "nat \<Rightarrow> string \<Rightarrow> nat option" where
  "digits_value acc [] = Some acc"
| "digits_value acc (c # cs) =
     (if c \<in> set ''0123456789''
      then digits_value (10 * acc + (of_char c - 48)) cs else None)"

definition demo_int :: "string \<Rightarrow> int option" where
  "demo_int s =
     (case s of
        [] \<Rightarrow> None
      | c # cs \<Rightarrow>
          if c = CHR ''-'' then (if cs = [] then None else map_option (\<lambda>n. - int n) (digits_value 0 cs))
          else map_option int (digits_value 0 s))"

definition demo_libs :: "claims list \<Rightarrow> libs" where
  "demo_libs known =
     \<lparr>default_method = ''demo:1'',
      hash_internal = (\<lambda>method salt password. method @ salt @ password),
      jwt_encode = demo_encode,
      jwt_verified_payload = (\<lambda>token key. find (\<lambda>p. demo_encode p key = token) known),
      py_int = demo_int\<rparr>"

definition empty_db :: database where
  "empty_db = \<lparr>users = [], api_operations = []\<rparr>"

text \<open>The store after \<^verbatim>\<open>alice\<close> has registered with the stand-in library.\<close>

definition alice_row :: user_row where
  "alice_row =
     \<lparr>u_id = 1, u_username = ''alice'', u_email = ''alice@x.com'',
      u_password_hash = ''demo:1$s4lt$demo:1s4ltpw12345'', u_role = ''user'',
      u_created_at = 100\<rparr>"

definition alice_db :: database where
  "alice_db = \<lparr>users = [alice_row], api_operations = []\<rparr>"

text \<open>An application over that store, a payload and a view to run requests on.\<close>

definition demo_app :: app where
  "demo_app = \<lparr>secret_key = ''k'', db_service = alice_db\<rparr>"

definition alice_claims :: claims where
  "alice_claims = issued_claims alice_row 1000"

definition nameless_claims :: claims where
  "nameless_claims =
     \<lparr>cl_username = None, cl_user_id = Some 1, cl_role = Some ''user'', cl_exp = Some 5000\<rparr>"

definition demo_view :: "user_row \<Rightarrow> response" where
  "demo_view current_user = (Message (u_username current_user), 200)"





section \<open>Facts about the store\<close>

lemma next_rowid_pos: "0 < next_rowid ids"
  by (simp add: next_rowid_def)

lemma split_dollar_append:
  "CHR ''$'' \<notin> set xs \<Longrightarrow> split_dollar (xs @ ''$'' @ ys) = Some (xs, ys)"
  by (induction xs) (auto simp: split_dollar_def)

lemma check_generated:
  assumes "CHR ''$'' \<notin> set (default_method L)" "CHR ''$'' \<notin> set salt"
  shows "check_password_hash L (generate_password_hash L salt password) candidate =
           (hash_internal L (default_method L) salt candidate
              = hash_internal L (default_method L) salt password)"
  using assms
  using split_dollar_append [of "default_method L" "salt @ ''$'' @ hash_internal L (default_method L) salt password"]
    split_dollar_append [of salt "hash_internal L (default_method L) salt password"]
  by (simp add: check_password_hash_def generate_password_hash_def)

lemma create_user_fresh:
  assumes "u \<notin> set (map u_username (users d))" "e \<notin> set (map u_email (users d))"
  shows "create_user L d now salt (Some u) (Some e) password role =
     (d\<lparr>users := users d @ [\<lparr>u_id = next_rowid (map u_id (users d)), u_username = u, u_email = e,
                           u_password_hash = generate_password_hash L salt password, u_role = role, u_created_at = now\<rparr>]\<rparr>,
      Some (next_rowid (map u_id (users d))))"
  using assms by (simp add: create_user_def insert_user_def Let_def)

lemma create_user_Some:
  assumes "create_user L d now salt username email password role = (d', Some i)"
  shows "\<exists>u e. username = Some u \<and> email = Some e \<and> u \<notin> set (map u_username (users d)) \<and> e \<notin> set (map u_email (users d))"
  using assms
  by (auto simp: create_user_def insert_user_def Let_def split: option.splits if_splits)

lemma create_user_taken:
  assumes "(\<exists>u. username = Some u \<and> u \<in> set (map u_username (users d)))
         \<or> (\<exists>e. email = Some e \<and> e \<in> set (map u_email (users d)))"
  shows "create_user L d now salt username email password role = (d, None)"
  using assms
  by (auto simp: create_user_def insert_user_def Let_def split: option.splits)

lemma find_append_fresh:
  "\<forall>x\<in>set xs. \<not> P x \<Longrightarrow> P y \<Longrightarrow> find P (xs @ [y]) = Some y"
  by (induction xs) auto

lemma alice_registers:
  "create_user (demo_libs []) empty_db 100 ''s4lt'' (Some ''alice'') (Some ''alice@x.com'')
     ''pw12345'' ''user'' = (alice_db, Some 1)"
  by (simp add: create_user_def insert_user_def generate_password_hash_def demo_libs_def
      empty_db_def alice_db_def alice_row_def next_rowid_def)

section \<open>Credential store: conflicts\<close>

text \<open>
  C8. The claim: a failure of the persistence layer other than a duplicate (such as a
  NOT NULL violation) reaches the caller as a result distinct from the one for a
  duplicate. The code at a registration whose username (or email) is null: the insert
  fails with a NOT NULL violation, \<^verbatim>\<open>except sqlite3.IntegrityError\<close> returns
  \<open>None\<close>, which is the result for a duplicate, and \<^verbatim>\<open>register\<close> answers 409
  "Username or email already exists" on a store that holds no user at all.
\<close>

theorem create_user_null_is_conflict_result:
  "create_user L d now salt None email password role = (d, None)
   \<and> create_user L d now salt username None password role = (d, None)
   \<and> snd (register L \<lparr>secret_key = k, db_service = \<lparr>users = [], api_operations = []\<rparr>\<rparr> now salt
        \<lparr>rq_username = Some None, rq_email = Some (Some e), rq_password = Some p, rq_role = None\<rparr>)
       = (Message ''Username or email already exists'', 409)"
  by (simp add: create_user_def insert_user_def register_def split: option.splits)

text \<open>
  C4. When the username or the email of a registration is already in the store,
  \<^verbatim>\<open>create_user\<close> returns \<open>None\<close> (a value, where a created user gives a positive
  id) and leaves the store as it was, and \<^verbatim>\<open>register\<close> answers 409. The
  duplicate is found by the insert itself: \<^verbatim>\<open>create_user\<close> makes no lookup
  first. After a successful registration a second one with the same username, whatever
  its email, password and role, returns \<open>None\<close>, and the store holds exactly one
  user of that name.
\<close>

theorem create_user_conflict:
  "(((\<exists>u. username = Some u \<and> u \<in> set (map u_username (users d)))
      \<or> (\<exists>e. email = Some e \<and> e \<in> set (map u_email (users d))))
     \<longrightarrow> create_user L d now salt username email password role = (d, None)
         \<and> register L \<lparr>secret_key = k, db_service = d\<rparr> now salt
              \<lparr>rq_username = Some username, rq_email = Some email,
               rq_password = Some password, rq_role = Some role\<rparr>
             = (\<lparr>secret_key = k, db_service = d\<rparr>, (Message ''Username or email already exists'', 409)))
   \<and> (create_user L d now salt (Some u1) (Some e1) password role = (d1, Some i)
     \<longrightarrow> 0 < i
         \<and> create_user L d1 now2 salt2 (Some u1) email2 password2 role2 = (d1, None)
         \<and> length (filter (\<lambda>r. u_username r = u1) (users d1)) = 1)"
proof (intro conjI impI)
  assume taken: "(\<exists>u. username = Some u \<and> u \<in> set (map u_username (users d)))
      \<or> (\<exists>e. email = Some e \<and> e \<in> set (map u_email (users d)))"
  then show c: "create_user L d now salt username email password role = (d, None)"
    by (rule create_user_taken)
  show "register L \<lparr>secret_key = k, db_service = d\<rparr> now salt
              \<lparr>rq_username = Some username, rq_email = Some email,
               rq_password = Some password, rq_role = Some role\<rparr>
             = (\<lparr>secret_key = k, db_service = d\<rparr>, (Message ''Username or email already exists'', 409))"
    by (simp add: register_def c)
next
  assume ok: "create_user L d now salt (Some u1) (Some e1) password role = (d1, Some i)"
  from create_user_Some [OF ok]
  have fresh: "u1 \<notin> set (map u_username (users d))" "e1 \<notin> set (map u_email (users d))"
    by auto
  from ok create_user_fresh [OF fresh, of L now salt password role]
  have d1: "d1 = d\<lparr>users := users d @ [\<lparr>u_id = next_rowid (map u_id (users d)), u_username = u1,
                 u_email = e1, u_password_hash = generate_password_hash L salt password,
                 u_role = role, u_created_at = now\<rparr>]\<rparr>"
    and i: "i = next_rowid (map u_id (users d))"
    by auto
  show "0 < i" by (simp add: i next_rowid_pos)
  have "u1 \<in> set (map u_username (users d1))" by (simp add: d1)
  then show "create_user L d1 now2 salt2 (Some u1) email2 password2 role2 = (d1, None)"
    by (intro create_user_taken) simp
  from fresh(1) show "length (filter (\<lambda>r. u_username r = u1) (users d1)) = 1"
    by (auto simp: d1 filter_empty_conv)
qed

theorem create_user_conflict_witness:
  "create_user (demo_libs []) empty_db 100 ''s4lt'' (Some ''alice'') (Some ''alice@x.com'')
       ''pw12345'' ''user'' = (alice_db, Some 1)
   \<and> create_user (demo_libs []) alice_db 200 ''pepper'' (Some ''alice'') (Some ''other@x.com'')
       ''secret'' ''admin'' = (alice_db, None)
   \<and> length (filter (\<lambda>r. u_username r = ''alice'') (users alice_db)) = 1
   \<and> create_user (demo_libs []) alice_db 200 ''pepper'' (Some ''bob'') (Some ''alice@x.com'')
       ''secret'' ''admin'' = (alice_db, None)
   \<and> register (demo_libs []) \<lparr>secret_key = ''k'', db_service = alice_db\<rparr> 200 ''pepper''
         \<lparr>rq_username = Some (Some ''bob''), rq_email = Some (Some ''alice@x.com''),
          rq_password = Some ''secret'', rq_role = Some ''admin''\<rparr>
       = (\<lparr>secret_key = ''k'', db_service = alice_db\<rparr>,
          (Message ''Username or email already exists'', 409))"
proof -
  note first = alice_registers
  have dup: "(\<exists>u. Some ''bob'' = Some u \<and> u \<in> set (map u_username (users alice_db)))
       \<or> (\<exists>e. Some ''alice@x.com'' = Some e \<and> e \<in> set (map u_email (users alice_db)))"
    by (simp add: alice_db_def alice_row_def)
  show ?thesis
    using first dup
      create_user_conflict [where d = empty_db and L = "demo_libs []" and now = 100
        and salt = "''s4lt''" and ?u1.0 = "''alice''" and ?e1.0 = "''alice@x.com''"
        and password = "''pw12345''" and role = "''user''" and ?d1.0 = alice_db and i = 1
        and ?now2.0 = 200 and ?salt2.0 = "''pepper''" and ?email2.0 = "Some ''other@x.com''"
        and ?password2.0 = "''secret''" and ?role2.0 = "''admin''"]
      create_user_conflict [where d = alice_db and L = "demo_libs []" and now = 200
        and salt = "''pepper''" and username = "Some ''bob''" and email = "Some ''alice@x.com''"
        and password = "''secret''" and role = "''admin''" and k = "''k''"]
    by simp
qed

section \<open>Credential store: the created record\<close>

lemma created_row:
  assumes ok: "create_user L d now salt (Some u) (Some e) password role = (d', Some i)"
  shows "get_user_by_username d' u =
           Some \<lparr>u_id = i, u_username = u, u_email = e,
                 u_password_hash = generate_password_hash L salt password,
                 u_role = role, u_created_at = now\<rparr>"
proof -
  from create_user_Some [OF ok]
  have fresh: "u \<notin> set (map u_username (users d))" "e \<notin> set (map u_email (users d))"
    by auto
  from ok create_user_fresh [OF fresh, of L now salt password role]
  have d': "d' = d\<lparr>users := users d @ [\<lparr>u_id = i, u_username = u,
                 u_email = e, u_password_hash = generate_password_hash L salt password,
                 u_role = role, u_created_at = now\<rparr>]\<rparr>"
    by auto
  from fresh(1) show ?thesis
    by (auto simp: d' get_user_by_username_def intro!: find_append_fresh)
qed

lemma generated_hash_differs:
  assumes "hash_internal L (default_method L) salt password
             \<noteq> drop (length (default_method L) + length salt + 2) password"
  shows "generate_password_hash L salt password \<noteq> password"
proof
  assume eq: "generate_password_hash L salt password = password"
  have "drop (length (default_method L) + length salt + 2) (generate_password_hash L salt password)
          = hash_internal L (default_method L) salt password"
    by (simp add: generate_password_hash_def)
  with eq assms show False by simp
qed

text \<open>
  C5. For a username and an email that the store does not hold yet,
  \<^verbatim>\<open>create_user\<close> succeeds with a row id, and \<^verbatim>\<open>get_user_by_username\<close> then
  returns the record with that id and the registered username, email and role. Its
  password hash is the derived string method, salt and digest; it verifies the
  registered password and is not the password. The salt and the method tag hold no
  \<^verbatim>\<open>$\<close> (werkzeug draws salts from letters and digits); that the hash differs from
  the plaintext is a property of the digest function, assumed of it: its digest of the
  password is not the tail of the password itself.
\<close>

theorem create_user_round_trip:
  assumes fresh: "u \<notin> set (map u_username (users d))" "e \<notin> set (map u_email (users d))"
    and tag_ok: "CHR ''$'' \<notin> set (default_method L)"
    and salt_ok: "CHR ''$'' \<notin> set salt"
    and digest: "hash_internal L (default_method L) salt password
             \<noteq> drop (length (default_method L) + length salt + 2) password"
  shows "\<exists>d' i user.
           create_user L d now salt (Some u) (Some e) password role = (d', Some i)
         \<and> get_user_by_username d' u = Some user
         \<and> u_id user = i \<and> u_username user = u \<and> u_email user = e \<and> u_role user = role
         \<and> check_password_hash L (u_password_hash user) password
         \<and> u_password_hash user = generate_password_hash L salt password
         \<and> u_password_hash user \<noteq> password"
proof -
  obtain d' i where ok: "create_user L d now salt (Some u) (Some e) password role = (d', Some i)"
    using create_user_fresh [OF fresh] by blast
  let ?user = "\<lparr>u_id = i, u_username = u, u_email = e,
                 u_password_hash = generate_password_hash L salt password,
                 u_role = role, u_created_at = now\<rparr>"
  have "get_user_by_username d' u = Some ?user"
    by (rule created_row [OF ok])
  moreover have "check_password_hash L (u_password_hash ?user) password"
    by (simp add: check_generated [OF tag_ok salt_ok])
  moreover have "u_password_hash ?user \<noteq> password"
    using generated_hash_differs [OF digest] by simp
  ultimately show ?thesis
    using ok by simp
qed

theorem create_user_round_trip_witness:
  "\<exists>d' i user.
       create_user (demo_libs []) empty_db 100 ''s4lt'' (Some ''alice'') (Some ''alice@x.com'')
         ''pw12345'' ''user'' = (d', Some i)
     \<and> get_user_by_username d' ''alice'' = Some user
     \<and> u_id user = i \<and> u_username user = ''alice'' \<and> u_email user = ''alice@x.com''
     \<and> u_role user = ''user''
     \<and> check_password_hash (demo_libs []) (u_password_hash user) ''pw12345''
     \<and> u_password_hash user = generate_password_hash (demo_libs []) ''s4lt'' ''pw12345''
     \<and> u_password_hash user \<noteq> ''pw12345''"
  using create_user_round_trip [where L = "demo_libs []" and d = empty_db and u = "''alice''"
      and e = "''alice@x.com''" and salt = "''s4lt''" and password = "''pw12345''"
      and now = 100 and role = "''user''"]
  by (simp add: demo_libs_def empty_db_def)

section \<open>Credential store: password verification\<close>



section \<open>Login\<close>

lemma get_user_by_username_name:
  "get_user_by_username d username = Some user \<Longrightarrow> u_username user = username"
  by (auto simp: get_user_by_username_def find_Some_iff)

lemma token_required_bearer:
  "token_required L a now f (Some (''Bearer '' @ token)) =
     (case jwt_decode L now token (secret_key a) of
               Inl ExpiredSignatureError \<Rightarrow> Inr (Message ''Token has expired'', 401)
             | Inl InvalidTokenError \<Rightarrow> Inr (Message ''Token is invalid'', 401)
             | Inr data \<Rightarrow>
                 (case cl_username data of
                    None \<Rightarrow> Inl (KeyError ''username'')
                  | Some username \<Rightarrow>
                      (case get_user_by_username (db_service a) username of
                         None \<Rightarrow> Inr (Message ''Token is invalid'', 401)
                       | Some current_user \<Rightarrow> Inr (f current_user))))"
  by (simp add: token_required_def)



section \<open>Tokens\<close>

text \<open>
  C2. A successful login returns the token \<^verbatim>\<open>jwt.encode\<close> makes, under the
  application's key, of the payload with exactly the user's username, id and role and
  the expiry 24 hours after the login. Decoding that token with the same key at any
  time before the expiry returns that payload, and a protected view called with it is
  run on the user's record. The one property of PyJWT used is that it reads back,
  as correctly signed, the payload it has just encoded under the same key.
\<close>

theorem issue_verify_round_trip:
  assumes user: "get_user_by_username (db_service a) username = Some user"
    and password: "check_password_hash L (u_password_hash user) password"
    and given: "username \<noteq> []" "password \<noteq> []"
    and library: "jwt_verified_payload L (jwt_encode L (issued_claims user now) (secret_key a))
                    (secret_key a) = Some (issued_claims user now)"
    and before_expiry: "now' < now + 24 * 3600"
  shows "\<exists>token summary payload.
           login L a now \<lparr>lg_username = Some username, lg_password = Some password\<rparr>
             = (LoginSuccessful token summary, 200)
         \<and> token = jwt_encode L payload (secret_key a)
         \<and> payload = \<lparr>cl_username = Some (u_username user), cl_user_id = Some (u_id user),
                        cl_role = Some (u_role user), cl_exp = Some (now + 24 * 3600)\<rparr>
         \<and> jwt_decode L now' token (secret_key a) = Inr payload
         \<and> token_required L a now' f (Some (''Bearer '' @ token)) = Inr (f user)"
proof -
  let ?payload = "issued_claims user now"
  let ?token = "jwt_encode L ?payload (secret_key a)"
  have login: "login L a now \<lparr>lg_username = Some username, lg_password = Some password\<rparr>
      = (LoginSuccessful ?token \<lparr>s_id = u_id user, s_username = u_username user,
                    s_email = u_email user, s_role = u_role user\<rparr>, 200)"
    using user password given by (simp add: login_def falsy_def)
  have decode: "jwt_decode L now' ?token (secret_key a) = Inr ?payload"
    using library before_expiry by (simp add: jwt_decode_def issued_claims_def)
  have name: "cl_username ?payload = Some username"
    using get_user_by_username_name [OF user] by (simp add: issued_claims_def)
  have admit: "token_required L a now' f (Some (''Bearer '' @ ?token)) = Inr (f user)"
    by (simp only: token_required_bearer decode name user sum.case option.case)
  show ?thesis
    using login decode admit by (simp add: issued_claims_def)
qed

lemma alice_found:
  "get_user_by_username (db_service demo_app) ''alice'' = Some alice_row"
  by (simp add: get_user_by_username_def demo_app_def alice_db_def alice_row_def)

lemma alice_password:
  "check_password_hash (demo_libs known) (u_password_hash alice_row) ''pw12345''"
  by (simp add: check_password_hash_def split_dollar_def alice_row_def demo_libs_def)

lemma alice_token:
  "jwt_encode (demo_libs known) (issued_claims alice_row 1000) (secret_key demo_app) = ''k.+alice''"
  by (simp add: demo_libs_def demo_encode_def issued_claims_def alice_row_def demo_app_def)

lemma alice_token_verified:
  "jwt_verified_payload (demo_libs [alice_claims]) ''k.+alice'' (secret_key demo_app)
     = Some (issued_claims alice_row 1000)"
  by (simp add: demo_libs_def demo_encode_def issued_claims_def alice_row_def demo_app_def
      alice_claims_def)

theorem issue_verify_round_trip_witness:
  "login (demo_libs [alice_claims]) demo_app 1000
       \<lparr>lg_username = Some ''alice'', lg_password = Some ''pw12345''\<rparr>
     = (LoginSuccessful ''k.+alice''
          \<lparr>s_id = 1, s_username = ''alice'', s_email = ''alice@x.com'', s_role = ''user''\<rparr>, 200)
   \<and> jwt_decode (demo_libs [alice_claims]) 1001 ''k.+alice'' (secret_key demo_app)
     = Inr \<lparr>cl_username = Some ''alice'', cl_user_id = Some 1, cl_role = Some ''user'',
            cl_exp = Some 87400\<rparr>
   \<and> token_required (demo_libs [alice_claims]) demo_app 1001 demo_view (Some ''Bearer k.+alice'')
     = Inr (Message ''alice'', 200)"
proof -
  have library: "jwt_verified_payload (demo_libs [alice_claims])
      (jwt_encode (demo_libs [alice_claims]) (issued_claims alice_row 1000) (secret_key demo_app))
      (secret_key demo_app) = Some (issued_claims alice_row 1000)"
    by (simp only: alice_token alice_token_verified)
  have before_expiry: "(1001::int) < 1000 + 24 * 3600"
    by simp
  have given: "''alice'' \<noteq> []" "''pw12345'' \<noteq> []"
    by simp_all
  from issue_verify_round_trip [OF alice_found alice_password given library before_expiry,
      of demo_view]
  obtain summary where
    login: "login (demo_libs [alice_claims]) demo_app 1000
       \<lparr>lg_username = Some ''alice'', lg_password = Some ''pw12345''\<rparr>
     = (LoginSuccessful ''k.+alice'' summary, 200)"
    and decode: "jwt_decode (demo_libs [alice_claims]) 1001 ''k.+alice'' (secret_key demo_app)
     = Inr \<lparr>cl_username = Some ''alice'', cl_user_id = Some 1, cl_role = Some ''user'',
            cl_exp = Some 87400\<rparr>"
    and admit: "token_required (demo_libs [alice_claims]) demo_app 1001 demo_view
       (Some (''Bearer '' @ ''k.+alice'')) = Inr (demo_view alice_row)"
    using alice_token [of "[alice_claims]"]
    by (auto simp: issued_claims_def alice_row_def)
  from login have "summary
      = \<lparr>s_id = 1, s_username = ''alice'', s_email = ''alice@x.com'', s_role = ''user''\<rparr>"
    using alice_found alice_password [of "[alice_claims]"]
    by (simp add: login_def falsy_def alice_row_def)
  with login decode admit show ?thesis
    by (simp add: demo_view_def alice_row_def)
qed





section \<open>The request authenticator\<close>

text \<open>
  C1. The claim: every value of the header is either rejected (missing, expired,
  invalid) or, when the token verifies and its user exists, admitted. The code at a
  header that carries a correctly signed, unexpired token whose payload has no
  \<^verbatim>\<open>username\<close> key: \<^verbatim>\<open>data['username']\<close> raises \<^verbatim>\<open>KeyError\<close>, which
  neither \<^verbatim>\<open>except\<close> clause catches, so the request is neither rejected with a
  reason nor admitted.
\<close>

theorem token_without_username_raises:
  assumes "jwt_verified_payload L token (secret_key a) = Some payload"
    and "cl_username payload = None"
    and "cl_exp payload = Some exp" "now < exp"
  shows "token_required L a now f (Some (''Bearer '' @ token)) = Inl (KeyError ''username'')"
  using assms by (simp only: token_required_bearer) (simp add: jwt_decode_def)

theorem token_without_username_raises_witness:
  "token_required (demo_libs [nameless_claims]) demo_app 1000 demo_view (Some ''Bearer k.-'')
     = Inl (KeyError ''username'')"
proof -
  have verified: "jwt_verified_payload (demo_libs [nameless_claims]) ''k.-'' (secret_key demo_app)
      = Some nameless_claims"
    by (simp add: demo_libs_def demo_encode_def demo_app_def nameless_claims_def)
  have nameless: "cl_username nameless_claims = None"
    by (simp add: nameless_claims_def)
  have exp: "cl_exp nameless_claims = Some 5000"
    by (simp add: nameless_claims_def)
  have "(1000::int) < 5000"
    by simp
  from token_without_username_raises [OF verified nameless exp this, of demo_view]
  show ?thesis by simp
qed

text \<open>
  The decorator as a state machine, for every header value: no header or an empty one
  is rejected as missing; otherwise the token is the header without its
  \<^verbatim>\<open>Bearer\<close> prefix, a token that fails verification is rejected as expired or as
  invalid, a verified payload that names a user the store does not hold is rejected as
  invalid, and a verified payload that names a stored user admits the request: the
  view runs on that user's record.
\<close>

theorem token_required_state_machine:
  "((authorization = None \<or> authorization = Some [])
      \<longrightarrow> token_required L a now f authorization = Inr (Message ''Token is missing'', 401))
   \<and> (header \<noteq> [] \<and> token = (if take 7 header = ''Bearer '' then drop 7 header else header)
      \<longrightarrow> (jwt_decode L now token (secret_key a) = Inl ExpiredSignatureError
            \<longrightarrow> token_required L a now f (Some header) = Inr (Message ''Token has expired'', 401))
        \<and> (jwt_decode L now token (secret_key a) = Inl InvalidTokenError
            \<longrightarrow> token_required L a now f (Some header) = Inr (Message ''Token is invalid'', 401))
        \<and> (jwt_decode L now token (secret_key a) = Inr data \<and> cl_username data = Some username
              \<and> get_user_by_username (db_service a) username = None
            \<longrightarrow> token_required L a now f (Some header) = Inr (Message ''Token is invalid'', 401))
        \<and> (jwt_decode L now token (secret_key a) = Inr data \<and> cl_username data = Some username
              \<and> get_user_by_username (db_service a) username = Some user
            \<longrightarrow> token_required L a now f (Some header) = Inr (f user)))"
  by (auto simp: token_required_def Let_def)

theorem token_required_state_machine_witness:
  "token_required (demo_libs [alice_claims]) demo_app 1001 demo_view None
     = Inr (Message ''Token is missing'', 401)
   \<and> token_required (demo_libs [alice_claims]) demo_app 1001 demo_view (Some ''k.+alice'')
     = Inr (Message ''alice'', 200)
   \<and> token_required (demo_libs [alice_claims]) demo_app 1001 demo_view (Some ''Bearer k.+alice'')
     = Inr (Message ''alice'', 200)
   \<and> token_required (demo_libs [alice_claims]) \<lparr>secret_key = ''k'', db_service = empty_db\<rparr>
       1001 demo_view (Some ''Bearer k.+alice'')
     = Inr (Message ''Token is invalid'', 401)"
proof -
  have decode: "jwt_decode (demo_libs [alice_claims]) 1001 ''k.+alice'' ''k''
      = Inr (issued_claims alice_row 1000)"
    using alice_token_verified by (simp add: jwt_decode_def issued_claims_def demo_app_def)
  have name: "cl_username (issued_claims alice_row 1000) = Some ''alice''"
    by (simp add: issued_claims_def alice_row_def)
  have gone: "get_user_by_username empty_db ''alice'' = None"
    by (simp add: get_user_by_username_def empty_db_def)
  have key: "secret_key demo_app = ''k''"
    by (simp add: demo_app_def)
  have 1: "token_required (demo_libs [alice_claims]) demo_app 1001 demo_view None
     = Inr (Message ''Token is missing'', 401)"
    using token_required_state_machine [where authorization = None
        and L = "demo_libs [alice_claims]" and a = demo_app and now = 1001 and f = demo_view]
    by blast
  have 2: "token_required (demo_libs [alice_claims]) demo_app 1001 demo_view (Some ''k.+alice'')
     = Inr (demo_view alice_row)"
    using token_required_state_machine [where header = "''k.+alice''" and token = "''k.+alice''"
        and L = "demo_libs [alice_claims]" and a = demo_app and now = 1001 and f = demo_view
        and data = "issued_claims alice_row 1000" and username = "''alice''" and user = alice_row]
      decode name alice_found key
    by simp
  have 3: "token_required (demo_libs [alice_claims]) demo_app 1001 demo_view
      (Some ''Bearer k.+alice'') = Inr (demo_view alice_row)"
    using token_required_state_machine [where header = "''Bearer k.+alice''"
        and token = "''k.+alice''"
        and L = "demo_libs [alice_claims]" and a = demo_app and now = 1001 and f = demo_view
        and data = "issued_claims alice_row 1000" and username = "''alice''" and user = alice_row]
      decode name alice_found key
    by simp
  have 4: "token_required (demo_libs [alice_claims]) \<lparr>secret_key = ''k'', db_service = empty_db\<rparr>
       1001 demo_view (Some ''Bearer k.+alice'') = Inr (Message ''Token is invalid'', 401)"
    using token_required_state_machine [where header = "''Bearer k.+alice''"
        and token = "''k.+alice''" and L = "demo_libs [alice_claims]"
        and a = "\<lparr>secret_key = ''k'', db_service = empty_db\<rparr>" and now = 1001
        and f = demo_view and data = "issued_claims alice_row 1000" and username = "''alice''"]
      decode name gone
    by simp
  from 1 2 3 4 show ?thesis
    by (simp add: demo_view_def alice_row_def)
qed

section \<open>Operation ledger\<close>














end
